theory Spec2Isabelle
  imports Main "HOL-Library.AList"
begin

section \<open>JavaScript values and the operations the route uses\<close>

text \<open>
  The two callbacks of \<^verbatim>\<open>route.ts\<close> narrow values at run time (\<^verbatim>\<open>isUser(user: unknown)\<close>,
  \<^verbatim>\<open>session?.user\<close>, the casts \<^verbatim>\<open>token as CustomJWT\<close>), so their arguments are modelled as
  untyped JavaScript values. \<open>JObj\<close> is an ordinary object: extensible, every property a
  writable data property, given by its own properties in insertion order. \<open>JFrozen\<close> is an
  object after \<^verbatim>\<open>Object.freeze\<close>: it reads like any object, and no property of it can be
  written or added (the freeze is shallow: an object held in a property is not frozen by
  it). Numbers are integers here (no \<^verbatim>\<open>NaN\<close>); functions, accessor properties, proxies and
  objects that are sealed or non-extensible without being frozen are not represented.
\<close>

datatype jsval =
    JUndefined
  | JNull
  | JBool bool
  | JNum int
  | JStr string
  | JObj "(string \<times> jsval) list"
  | JFrozen "(string \<times> jsval) list"

text \<open>
  What the source throws: \<^verbatim>\<open>new Error(message)\<close> at its three throw sites, and the
  \<^verbatim>\<open>TypeError\<close> of the language for a property access on \<^verbatim>\<open>undefined\<close>/\<^verbatim>\<open>null\<close> or a property
  write on a non-object or on a frozen object (the module is an ES module, hence strict
  code).
  A rejected promise is the \<open>Inl\<close> of a result.
\<close>

datatype js_error = Error string | TypeError

text \<open>JavaScript's \<^verbatim>\<open>ToBoolean\<close>, as used by \<^verbatim>\<open>if (v)\<close>, \<^verbatim>\<open>!v\<close> and \<^verbatim>\<open>a && b\<close>.\<close>

fun truthy :: "jsval \<Rightarrow> bool" where
  "truthy JUndefined = False"
| "truthy JNull = False"
| "truthy (JBool b) = b"
| "truthy (JNum n) = (n \<noteq> 0)"
| "truthy (JStr s) = (s \<noteq> [])"
| "truthy (JObj fs) = True"
| "truthy (JFrozen fs) = True"

text \<open>
  The property read \<^verbatim>\<open>v.k\<close>. It throws on \<^verbatim>\<open>undefined\<close> and \<^verbatim>\<open>null\<close>; on an object it is
  the property's value, \<^verbatim>\<open>undefined\<close> when there is none; on the other primitives it is
  \<^verbatim>\<open>undefined\<close> for the names the source reads (\<^verbatim>\<open>role\<close>, \<^verbatim>\<open>user\<close>), which no wrapper
  prototype defines.
\<close>

fun get_prop :: "jsval \<Rightarrow> string \<Rightarrow> js_error + jsval" where
  "get_prop JUndefined k = Inl TypeError"
| "get_prop JNull k = Inl TypeError"
| "get_prop (JObj fs) k = Inr (case map_of fs k of None \<Rightarrow> JUndefined | Some v \<Rightarrow> v)"
| "get_prop (JFrozen fs) k = Inr (case map_of fs k of None \<Rightarrow> JUndefined | Some v \<Rightarrow> v)"
| "get_prop v k = Inr JUndefined"

text \<open>The optional chain \<^verbatim>\<open>v?.k\<close>: \<^verbatim>\<open>undefined\<close> where \<^verbatim>\<open>v\<close> is nullish, never a throw.\<close>

fun opt_prop :: "jsval \<Rightarrow> string \<Rightarrow> jsval" where
  "opt_prop (JObj fs) k = (case map_of fs k of None \<Rightarrow> JUndefined | Some v \<Rightarrow> v)"
| "opt_prop (JFrozen fs) k = (case map_of fs k of None \<Rightarrow> JUndefined | Some v \<Rightarrow> v)"
| "opt_prop v k = JUndefined"

text \<open>
  The property write \<^verbatim>\<open>v.k = x\<close> in strict code: on an ordinary object an existing property
  keeps its place and takes the new value, a new one is appended; on a frozen object and on
  anything that is not an object it throws. The source mutates in place; the model returns
  the object after the write.
\<close>

fun set_prop :: "jsval \<Rightarrow> string \<Rightarrow> jsval \<Rightarrow> js_error + jsval" where
  "set_prop (JObj fs) k x = Inr (JObj (AList.update k x fs))"
| "set_prop v k x = Inl TypeError"

text \<open>
  \<^verbatim>\<open>session.user\<close> is a reference: after \<^verbatim>\<open>session.user.role = r\<close> the session holds the
  changed user object. With values instead of references the changed object is put back
  under the key it was read from. This is no write to the session: a frozen session shows
  the change of its user object as any other does.
\<close>

fun write_back :: "jsval \<Rightarrow> string \<Rightarrow> jsval \<Rightarrow> jsval" where
  "write_back (JObj fs) k x = JObj (AList.update k x fs)"
| "write_back (JFrozen fs) k x = JFrozen (AList.update k x fs)"
| "write_back v k x = v"

section \<open>Data of the credential flow\<close>

text \<open>\<^verbatim>\<open>export enum Role { ADMIN = "ADMIN", USER = "USER", MODERATOR = "MODERATOR" }\<close>\<close>

datatype Role = ADMIN | USER | MODERATOR

fun role_str :: "Role \<Rightarrow> string" where
  "role_str ADMIN = ''ADMIN''"
| "role_str USER = ''USER''"
| "role_str MODERATOR = ''MODERATOR''"

text \<open>
  The argument of \<^verbatim>\<open>authorize\<close> has type \<^verbatim>\<open>Record<"email" | "password", string> | undefined\<close>;
  a field that was not submitted is \<^verbatim>\<open>undefined\<close>. The fields are \<^verbatim>\<open>email\<close> and \<^verbatim>\<open>password\<close>.
\<close>

record credentials =
  cred_email :: "string option"
  cred_password :: "string option"

text \<open>
  A row of the user table, as \<^verbatim>\<open>authorize\<close> reads it: \<^verbatim>\<open>id\<close>, \<^verbatim>\<open>email\<close>, \<^verbatim>\<open>name\<close>,
  \<^verbatim>\<open>password\<close> (the stored digest) and \<^verbatim>\<open>role\<close>. The schema is not part of the sources, so
  the type of \<^verbatim>\<open>id\<close> is a parameter.
\<close>

record 'i User =
  user_id :: 'i
  user_email :: string
  user_name :: string
  user_password :: string
  user_role :: Role

text \<open>
  The collaborators \<^verbatim>\<open>authorize\<close> calls: \<^verbatim>\<open>prisma.user.findUnique({ where: { email } })\<close>,
  which yields a row, \<^verbatim>\<open>null\<close>, or rejects when the store is unreachable;
  \<^verbatim>\<open>bcrypt.compare(plaintext, digest)\<close>; and \<^verbatim>\<open>toString\<close> of the row's \<^verbatim>\<open>id\<close>.
\<close>

record 'i collaborators =
  findUnique :: "string \<Rightarrow> js_error + 'i User option"
  bcrypt_compare :: "string \<Rightarrow> string \<Rightarrow> bool"
  toString :: "'i \<Rightarrow> string"

text \<open>The calls \<^verbatim>\<open>authorize\<close> makes to its collaborators, in order.\<close>

datatype call = FindUnique string | Compare string string

section \<open>\<^verbatim>\<open>authorize\<close>\<close>

text \<open>
  The object literal \<^verbatim>\<open>{ id: user.id.toString(), email: user.email, name: user.name,
  role: user.role }\<close> returned at the end of \<^verbatim>\<open>authorize\<close> (the specification calls it
  \<^verbatim>\<open>buildClaims\<close>).
\<close>

definition buildClaims :: "'i collaborators \<Rightarrow> 'i User \<Rightarrow> jsval" where
  "buildClaims env user =
     JObj [(''id'', JStr (toString env (user_id user))),
           (''email'', JStr (user_email user)),
           (''name'', JStr (user_name user)),
           (''role'', JStr (role_str (user_role user)))]"

text \<open>
  \<^verbatim>\<open>authorize(credentials)\<close>. The result is the list of collaborator calls made and either
  the thrown error or the returned object. \<^verbatim>\<open>!credentials?.email\<close> holds when the
  credentials or the field are absent or the field is the empty string.
\<close>

definition authorize ::
  "'i collaborators \<Rightarrow> credentials option \<Rightarrow> call list \<times> (js_error + jsval)" where
  "authorize env creds =
     (case (Option.bind creds cred_email, Option.bind creds cred_password) of
        (Some email, Some password) \<Rightarrow>
          if email = [] \<or> password = [] then
            ([], Inl (Error ''Please enter an email and password''))
          else
            (case findUnique env email of
               Inl e \<Rightarrow> ([FindUnique email], Inl e)
             | Inr None \<Rightarrow> ([FindUnique email], Inl (Error ''No user found with this email''))
             | Inr (Some user) \<Rightarrow>
                 (let passwordMatch = bcrypt_compare env password (user_password user);
                      calls = [FindUnique email, Compare password (user_password user)]
                  in if \<not> passwordMatch then (calls, Inl (Error ''Incorrect password''))
                     else (calls, Inr (buildClaims env user))))
      | _ \<Rightarrow> ([], Inl (Error ''Please enter an email and password'')))"

text \<open>
  The specification's names for the three failures; the source tells them apart by the
  message only.
\<close>

definition InvalidInput :: js_error where
  "InvalidInput = Error ''Please enter an email and password''"

definition UserNotFound :: js_error where
  "UserNotFound = Error ''No user found with this email''"

definition InvalidCredentials :: js_error where
  "InvalidCredentials = Error ''Incorrect password''"

section \<open>The callbacks\<close>

text \<open>\<^verbatim>\<open>function isUser(user: unknown) { return (user as User).role !== undefined; }\<close>\<close>

definition isUser :: "jsval \<Rightarrow> js_error + bool" where
  "isUser user = (case get_prop user ''role'' of Inl e \<Rightarrow> Inl e | Inr r \<Rightarrow> Inr (r \<noteq> JUndefined))"

text \<open>
  \<^verbatim>\<open>async jwt({ token, user }) { if (user && isUser(user)) { token.role = user.role; }
  return token; }\<close>
\<close>

definition jwt :: "jsval \<Rightarrow> jsval \<Rightarrow> js_error + jsval" where
  "jwt token user =
     (if \<not> truthy user then Inr token
      else case isUser user of
             Inl e \<Rightarrow> Inl e
           | Inr b \<Rightarrow>
               if \<not> b then Inr token
               else (case get_prop user ''role'' of
                       Inl e \<Rightarrow> Inl e
                     | Inr r \<Rightarrow> set_prop token ''role'' r))"

text \<open>
  Two other versions of the route are kept in the repository; they differ from
  \<^verbatim>\<open>route.ts\<close> in \<^verbatim>\<open>isUser\<close> only. One has
  \<^verbatim>\<open>return typeof (user as { role: string }).role === "string";\<close>
  which throws on \<^verbatim>\<open>undefined\<close> and \<^verbatim>\<open>null\<close>.
\<close>

definition isUser_typeof :: "jsval \<Rightarrow> js_error + bool" where
  "isUser_typeof user =
     (case get_prop user ''role'' of
        Inl e \<Rightarrow> Inl e
      | Inr r \<Rightarrow> Inr (case r of JStr s \<Rightarrow> True | _ \<Rightarrow> False))"

text \<open>
  The other has \<^verbatim>\<open>return user && typeof user.role === 'string';\<close> which on a falsy argument
  returns that argument and does not throw, and otherwise returns the boolean.
\<close>

definition isUser_guarded :: "jsval \<Rightarrow> js_error + jsval" where
  "isUser_guarded user =
     (if \<not> truthy user then Inr user
      else case get_prop user ''role'' of
             Inl e \<Rightarrow> Inl e
           | Inr r \<Rightarrow> Inr (JBool (case r of JStr s \<Rightarrow> True | _ \<Rightarrow> False)))"

definition jwt_typeof :: "jsval \<Rightarrow> jsval \<Rightarrow> js_error + jsval" where
  "jwt_typeof token user =
     (if \<not> truthy user then Inr token
      else case isUser_typeof user of
             Inl e \<Rightarrow> Inl e
           | Inr b \<Rightarrow>
               if \<not> b then Inr token
               else (case get_prop user ''role'' of
                       Inl e \<Rightarrow> Inl e
                     | Inr r \<Rightarrow> set_prop token ''role'' r))"

definition jwt_guarded :: "jsval \<Rightarrow> jsval \<Rightarrow> js_error + jsval" where
  "jwt_guarded token user =
     (if \<not> truthy user then Inr token
      else case isUser_guarded user of
             Inl e \<Rightarrow> Inl e
           | Inr b \<Rightarrow>
               if \<not> truthy b then Inr token
               else (case get_prop user ''role'' of
                       Inl e \<Rightarrow> Inl e
                     | Inr r \<Rightarrow> set_prop token ''role'' r))"

text \<open>
  \<^verbatim>\<open>async session({ session, token }) { if (session?.user) { session.user.role = token.role; }
  return session; }\<close>
\<close>

definition session :: "jsval \<Rightarrow> jsval \<Rightarrow> js_error + jsval" where
  "session sess token =
     (let u = opt_prop sess ''user'' in
      if truthy u then
        (case get_prop token ''role'' of
           Inl e \<Rightarrow> Inl e
         | Inr r \<Rightarrow>
             (case set_prop u ''role'' r of
                Inl e \<Rightarrow> Inl e
              | Inr u' \<Rightarrow> Inr (write_back sess ''user'' u')))
      else Inr sess)"

text \<open>
  The framework calls \<^verbatim>\<open>jwt\<close> once per request, each time with the token the last call
  returned and that request's \<^verbatim>\<open>user\<close> argument.
\<close>

fun jwt_requests :: "jsval \<Rightarrow> jsval list \<Rightarrow> js_error + jsval" where
  "jwt_requests token [] = Inr token"
| "jwt_requests token (user # users) =
     (case jwt token user of Inl e \<Rightarrow> Inl e | Inr token' \<Rightarrow> jwt_requests token' users)"

section \<open>The store client module\<close>

text \<open>
  \<^verbatim>\<open>prisma.ts\<close> runs once per module load. The process holds \<^verbatim>\<open>process.env.NODE_ENV\<close> and
  \<^verbatim>\<open>global.prisma\<close>. A client is identified by its construction number, and the process
  counts the \<^verbatim>\<open>new PrismaClient()\<close> evaluated so far.
\<close>

record process =
  NODE_ENV :: "string option"
  global_prisma :: "nat option"
  constructed :: nat

definition new_PrismaClient :: "process \<Rightarrow> nat \<times> process" where
  "new_PrismaClient p = (constructed p, p\<lparr>constructed := Suc (constructed p)\<rparr>)"

text \<open>The module body: the exported \<^verbatim>\<open>prisma\<close> and the process after the load.\<close>

definition prisma_module :: "process \<Rightarrow> nat option \<times> process" where
  "prisma_module p =
     (if NODE_ENV p = Some ''production'' then
        (case new_PrismaClient p of (c, p') \<Rightarrow> (Some c, p'))
      else
        (let p' = (if global_prisma p = None
                   then (case new_PrismaClient p of (c, q) \<Rightarrow> q\<lparr>global_prisma := Some c\<rparr>)
                   else p)
         in (global_prisma p', p')))"

section \<open>A concrete store\<close>

text \<open>
  One row, \<^verbatim>\<open>{ id: 1, email: "a@x.com", name: "A", password: "#pw1", role: "ADMIN" }\<close>,
  a lookup by exact match on the email, and a toy digest (a digest is \<^verbatim>\<open>#\<close> followed by the
  plaintext) standing for the hashing library.
\<close>

definition row_A :: "nat User" where
  "row_A = \<lparr>user_id = 1, user_email = ''a@x.com'', user_name = ''A'',
            user_password = ''#pw1'', user_role = ADMIN\<rparr>"

definition store_A :: "nat collaborators" where
  "store_A = \<lparr>findUnique = (\<lambda>email. Inr (if email = ''a@x.com'' then Some row_A else None)),
              bcrypt_compare = (\<lambda>plaintext digest. digest = CHR ''#'' # plaintext),
              toString = (\<lambda>n. if n = 1 then ''1'' else ''0'')\<rparr>"

definition creds :: "string \<Rightarrow> string \<Rightarrow> credentials option" where
  "creds email password = Some \<lparr>cred_email = Some email, cred_password = Some password\<rparr>"

text \<open>
  A base session as the token transport hands it to the callback,
  \<^verbatim>\<open>{ user: { email: "a@x.com", name: "A" } }\<close>, and a token before login.
\<close>

definition session_A :: jsval where
  "session_A = JObj [(''user'', JObj [(''email'', JStr ''a@x.com''), (''name'', JStr ''A'')])]"

definition token_A :: jsval where
  "token_A = JObj [(''sub'', JStr ''1'')]"

section \<open>Credential verification\<close>

text \<open>
  C1. When email and password are non-empty, the lookup by that email finds a row and
  \<^verbatim>\<open>bcrypt.compare\<close> accepts the password against the row's digest, \<^verbatim>\<open>authorize\<close> returns
  exactly the object with the row's stringified id, its email, its name and its role,
  and that role is one of ADMIN, USER, MODERATOR.
\<close>

theorem authorize_success:
  assumes "cred_email c = Some email" and "cred_password c = Some password"
    and "email \<noteq> []" and "password \<noteq> []"
    and "findUnique env email = Inr (Some user)"
    and "bcrypt_compare env password (user_password user)"
  shows "snd (authorize env (Some c))
           = Inr (JObj [(''id'', JStr (toString env (user_id user))),
                        (''email'', JStr (user_email user)),
                        (''name'', JStr (user_name user)),
                        (''role'', JStr (role_str (user_role user)))])
         \<and> role_str (user_role user) \<in> {''ADMIN'', ''USER'', ''MODERATOR''}"
  using assms by (cases "user_role user") (simp_all add: authorize_def buildClaims_def)

theorem authorize_success_witness:
  "snd (authorize store_A (creds ''a@x.com'' ''pw1''))
     = Inr (JObj [(''id'', JStr ''1''), (''email'', JStr ''a@x.com''),
                  (''name'', JStr ''A''), (''role'', JStr ''ADMIN'')])"
  using authorize_success [of "\<lparr>cred_email = Some ''a@x.com'', cred_password = Some ''pw1''\<rparr>"
      "''a@x.com''" "''pw1''" store_A row_A]
  by (simp add: store_A_def row_A_def creds_def)

text \<open>
  C2. With non-empty email and password: when the lookup finds no row, \<^verbatim>\<open>authorize\<close>
  fails with UserNotFound; when it finds a row and \<^verbatim>\<open>bcrypt.compare\<close> rejects the password
  against the row's digest, it fails with InvalidCredentials; and the two failures differ.
\<close>

theorem authorize_failure_kinds:
  assumes "cred_email c = Some email" and "cred_password c = Some password"
    and "email \<noteq> []" and "password \<noteq> []"
  shows "(findUnique env email = Inr None \<longrightarrow> snd (authorize env (Some c)) = Inl UserNotFound)
       \<and> (\<forall>user. findUnique env email = Inr (Some user)
                 \<and> \<not> bcrypt_compare env password (user_password user)
             \<longrightarrow> snd (authorize env (Some c)) = Inl InvalidCredentials)
       \<and> UserNotFound \<noteq> InvalidCredentials"
  using assms by (simp add: authorize_def UserNotFound_def InvalidCredentials_def)

theorem authorize_failure_kinds_witness:
  "snd (authorize store_A (creds ''b@x.com'' ''pw1'')) = Inl UserNotFound
   \<and> snd (authorize store_A (creds ''a@x.com'' ''wrong'')) = Inl InvalidCredentials"
  using authorize_failure_kinds [of "\<lparr>cred_email = Some ''b@x.com'', cred_password = Some ''pw1''\<rparr>"
      "''b@x.com''" "''pw1''" store_A]
    authorize_failure_kinds [of "\<lparr>cred_email = Some ''a@x.com'', cred_password = Some ''wrong''\<rparr>"
      "''a@x.com''" "''wrong''" store_A]
  by (simp add: store_A_def row_A_def creds_def)

lemma authorize_rejects:
  assumes "c = None
           \<or> Option.bind c cred_email = None \<or> Option.bind c cred_email = Some []
           \<or> Option.bind c cred_password = None \<or> Option.bind c cred_password = Some []"
  shows "authorize env c = ([], Inl (Error ''Please enter an email and password''))"
  using assms by (auto simp: authorize_def split: option.splits)

text \<open>
  C3. When the credentials are absent, or the email or the password is absent or the empty
  string, \<^verbatim>\<open>authorize\<close> fails with InvalidInput and calls no collaborator: the list of
  calls is empty, and the outcome is the same whatever the store holds.
\<close>

theorem authorize_invalid_input:
  assumes "c = None
           \<or> Option.bind c cred_email = None \<or> Option.bind c cred_email = Some []
           \<or> Option.bind c cred_password = None \<or> Option.bind c cred_password = Some []"
  shows "authorize env c = ([], Inl InvalidInput)
         \<and> (\<forall>x \<in> set (fst (authorize env c)). \<forall>email. x \<noteq> FindUnique email)
         \<and> (\<forall>env'. authorize env' c = authorize env c)"
  using assms by (simp add: authorize_rejects InvalidInput_def)

theorem authorize_invalid_input_witness:
  "authorize store_A (creds [] ''pw1'') = ([], Inl InvalidInput)
   \<and> authorize store_A (Some \<lparr>cred_email = Some ''a@x.com'', cred_password = None\<rparr>)
       = ([], Inl InvalidInput)
   \<and> authorize store_A None = ([], Inl InvalidInput)"
proof -
  have 1: "Option.bind (creds [] ''pw1'') cred_email = Some []"
    by (simp add: creds_def)
  have 2: "Option.bind (Some \<lparr>cred_email = Some ''a@x.com'', cred_password = None\<rparr>) cred_password
             = None"
    by simp
  show ?thesis
    using authorize_invalid_input [of "creds [] ''pw1''" store_A, THEN conjunct1]
      authorize_invalid_input
        [of "Some \<lparr>cred_email = Some ''a@x.com'', cred_password = None\<rparr>" store_A, THEN conjunct1]
      authorize_invalid_input [of None store_A, THEN conjunct1]
      1 2
    by blast
qed

section \<open>Facts about the callbacks\<close>

lemma session_on_object:
  assumes "opt_prop sess ''user'' = JObj uf" and "get_prop token ''role'' = Inr r"
  shows "session sess token = Inr (write_back sess ''user'' (JObj (AList.update ''role'' r uf)))"
  using assms by (simp add: session_def)

lemma session_on_absent:
  assumes "\<not> truthy (opt_prop sess ''user'')"
  shows "session sess token = Inr sess"
  using assms by (simp add: session_def)


lemma opt_prop_write_back:
  assumes "opt_prop sess k = JObj uf"
  shows "opt_prop (write_back sess k x) k = x"
  using assms by (cases sess) (auto simp: update_conv')


lemma write_back_twice: "write_back (write_back sess k x) k x = write_back sess k x"
  by (cases sess) auto

lemma set_prop_truthy:
  assumes "truthy u" and "set_prop u k r = Inr u'"
  shows "\<exists>uf. u = JObj uf \<and> u' = JObj (AList.update k r uf)"
  using assms by (cases u) auto

lemma set_prop_result:
  assumes "set_prop t k r = Inr t'"
  shows "opt_prop t' k = r"
  using assms by (cases t) (auto simp: update_conv')

lemma session_cases:
  assumes "session sess token = Inr sess'"
  shows "(\<not> truthy (opt_prop sess ''user'') \<and> sess' = sess)
       \<or> (\<exists>uf r. opt_prop sess ''user'' = JObj uf \<and> get_prop token ''role'' = Inr r
                \<and> sess' = write_back sess ''user'' (JObj (AList.update ''role'' r uf)))"
proof (cases "truthy (opt_prop sess ''user'')")
  case False
  with assms show ?thesis by (simp add: session_def)
next
  case True
  from assms True obtain r u' where r: "get_prop token ''role'' = Inr r"
    and u': "set_prop (opt_prop sess ''user'') ''role'' r = Inr u'"
    and s': "sess' = write_back sess ''user'' u'"
    by (auto simp: session_def Let_def split: sum.splits)
  from set_prop_truthy [OF True u'] obtain uf where "opt_prop sess ''user'' = JObj uf"
    and "u' = JObj (AList.update ''role'' r uf)" by blast
  with r s' show ?thesis by blast
qed

lemma jwt_absent: "\<not> truthy user \<Longrightarrow> jwt token user = Inr token"
  by (simp add: jwt_def)

lemma jwt_no_role: "get_prop user ''role'' = Inr JUndefined \<Longrightarrow> jwt token user = Inr token"
  by (simp add: jwt_def isUser_def)

lemma jwt_with_role:
  assumes "truthy user" and "get_prop user ''role'' = Inr r" and "r \<noteq> JUndefined"
  shows "jwt token user = set_prop token ''role'' r"
  using assms by (simp add: jwt_def isUser_def)

lemma jwt_requests_unchanged:
  assumes "\<forall>user \<in> set users. \<not> truthy user \<or> get_prop user ''role'' = Inr JUndefined"
  shows "jwt_requests token users = Inr token"
  using assms by (induction users) (auto simp: jwt_absent jwt_no_role)

lemma jwt_buildClaims:
  "jwt token (buildClaims env user) = set_prop token ''role'' (JStr (role_str (user_role user)))"
  by (rule jwt_with_role) (simp_all add: buildClaims_def)

text \<open>
  The versions of \<^verbatim>\<open>jwt\<close> agree wherever \<^verbatim>\<open>user.role\<close> is a string or \<^verbatim>\<open>undefined\<close>, as it
  is for what \<^verbatim>\<open>authorize\<close> returns and for a user without a role.
\<close>

lemma jwt_typeof_agrees:
  assumes "get_prop user ''role'' = Inr r" and "r = JUndefined \<or> (\<exists>s. r = JStr s)"
  shows "jwt_typeof token user = jwt token user"
  using assms by (auto simp: jwt_typeof_def jwt_def isUser_typeof_def isUser_def)

lemma jwt_typeof_buildClaims:
  "jwt_typeof token (buildClaims env user) = jwt token (buildClaims env user)"
  by (rule jwt_typeof_agrees [where r = "JStr (role_str (user_role user))"])
     (simp_all add: buildClaims_def)

lemma jwt_typeof_absent: "\<not> truthy user \<Longrightarrow> jwt_typeof token user = Inr token"
  by (simp add: jwt_typeof_def)

lemma isUser_guarded_falsy: "\<not> truthy user \<Longrightarrow> isUser_guarded user = Inr user"
  by (simp add: isUser_guarded_def)

lemma jwt_guarded_typeof: "jwt_guarded token user = jwt_typeof token user"
  by (cases "get_prop user ''role''")
     (simp_all add: jwt_guarded_def jwt_typeof_def isUser_guarded_def isUser_typeof_def)

lemma authorize_returns:
  assumes "snd (authorize env c) = Inr claims"
  shows "\<exists>user. claims = buildClaims env user"
  using assms
  by (auto simp: authorize_def Let_def split: option.splits sum.splits if_splits)

lemma role_str_closed: "role_str r \<in> {''ADMIN'', ''USER'', ''MODERATOR''}"
  by (cases r) simp_all

section \<open>Session projection\<close>





text \<open>
  C8. The session callback is idempotent: run again on its own result with the same token
  it returns that result unchanged. As the callback writes into the session it was given
  and returns it, a second call on the same arguments is this second run, so both calls
  return structurally identical sessions.
\<close>

theorem session_idempotent:
  assumes "session sess token = Inr sess'"
  shows "session sess' token = Inr sess' \<and> session sess token = session sess' token"
proof -
  from session_cases [OF assms] have "session sess' token = Inr sess'"
  proof (elim disjE conjE exE)
    assume "\<not> truthy (opt_prop sess ''user'')" and "sess' = sess"
    then show ?thesis by (simp add: session_on_absent)
  next
    fix uf r
    assume uf: "opt_prop sess ''user'' = JObj uf" and r: "get_prop token ''role'' = Inr r"
      and s': "sess' = write_back sess ''user'' (JObj (AList.update ''role'' r uf))"
    have "opt_prop sess' ''user'' = JObj (AList.update ''role'' r uf)"
      unfolding s' using uf by (rule opt_prop_write_back)
    from session_on_object [OF this r] show ?thesis
      by (simp add: s' write_back_twice)
  qed
  with assms show ?thesis by simp
qed

theorem session_idempotent_witness:
  "session (JObj [(''user'', JObj [(''email'', JStr ''a@x.com''), (''name'', JStr ''A''),
                                   (''role'', JStr ''MODERATOR'')])])
     (JObj [(''role'', JStr ''MODERATOR'')])
   = Inr (JObj [(''user'', JObj [(''email'', JStr ''a@x.com''), (''name'', JStr ''A''),
                                 (''role'', JStr ''MODERATOR'')])])"
proof -
  have "session session_A (JObj [(''role'', JStr ''MODERATOR'')])
          = Inr (JObj [(''user'', JObj [(''email'', JStr ''a@x.com''), (''name'', JStr ''A''),
                                        (''role'', JStr ''MODERATOR'')])])"
    by (simp add: session_def session_A_def)
  from session_idempotent [OF this] show ?thesis by simp
qed

section \<open>The token callback\<close>

text \<open>
  C9. When the \<^verbatim>\<open>user\<close> argument is absent (or otherwise falsy) or has no \<^verbatim>\<open>role\<close>, the
  \<^verbatim>\<open>jwt\<close> callback returns the token it was given, unchanged; hence over any sequence of
  later requests with such arguments the token, and the role in it, stays as it was.
\<close>

theorem jwt_frame:
  "(\<not> truthy user \<or> get_prop user ''role'' = Inr JUndefined \<longrightarrow> jwt token user = Inr token)
   \<and> ((\<forall>u \<in> set users. \<not> truthy u \<or> get_prop u ''role'' = Inr JUndefined) \<longrightarrow>
        jwt_requests token users = Inr token)"
  using jwt_absent jwt_no_role jwt_requests_unchanged by blast

theorem jwt_frame_witness:
  "jwt (JObj [(''sub'', JStr ''1''), (''role'', JStr ''ADMIN'')]) JUndefined
     = Inr (JObj [(''sub'', JStr ''1''), (''role'', JStr ''ADMIN'')])
   \<and> jwt (JObj [(''sub'', JStr ''1''), (''role'', JStr ''ADMIN'')]) (JObj [(''name'', JStr ''B'')])
     = Inr (JObj [(''sub'', JStr ''1''), (''role'', JStr ''ADMIN'')])
   \<and> jwt_requests (JObj [(''sub'', JStr ''1''), (''role'', JStr ''ADMIN'')])
       [JUndefined, JObj [(''name'', JStr ''B'')], JUndefined]
     = Inr (JObj [(''sub'', JStr ''1''), (''role'', JStr ''ADMIN'')])"
  using jwt_frame [of JUndefined "JObj [(''sub'', JStr ''1''), (''role'', JStr ''ADMIN'')]" "[]"]
    jwt_frame [of "JObj [(''name'', JStr ''B'')]"
      "JObj [(''sub'', JStr ''1''), (''role'', JStr ''ADMIN'')]"
      "[JUndefined, JObj [(''name'', JStr ''B'')], JUndefined]"]
  by simp

section \<open>Login, token and session together\<close>

text \<open>
  C7. For every row of the store (its role is ADMIN, USER or MODERATOR), every token
  object and every base session whose \<^verbatim>\<open>user\<close> is an object: the object built from the row
  at the end of \<^verbatim>\<open>authorize\<close>, passed to \<^verbatim>\<open>jwt\<close> and the resulting token passed to
  \<^verbatim>\<open>session\<close>, gives a session whose \<^verbatim>\<open>user.role\<close> is the row's role.
\<close>

theorem role_round_trip:
  assumes "opt_prop sess ''user'' = JObj uf"
  shows "\<exists>token sess'.
           jwt (JObj tf) (buildClaims env user) = Inr token
         \<and> session sess token = Inr sess'
         \<and> opt_prop (opt_prop sess' ''user'') ''role'' = JStr (role_str (user_role user))"
proof -
  define r where "r = JStr (role_str (user_role user))"
  define token where "token = JObj (AList.update ''role'' r tf)"
  define sess' where "sess' = write_back sess ''user'' (JObj (AList.update ''role'' r uf))"
  have 1: "jwt (JObj tf) (buildClaims env user) = Inr token"
    by (simp add: jwt_buildClaims token_def r_def)
  have "get_prop token ''role'' = Inr r"
    by (simp add: token_def update_conv')
  with assms have 2: "session sess token = Inr sess'"
    unfolding sess'_def by (rule session_on_object)
  have "opt_prop sess' ''user'' = JObj (AList.update ''role'' r uf)"
    unfolding sess'_def using assms by (rule opt_prop_write_back)
  then have 3: "opt_prop (opt_prop sess' ''user'') ''role'' = r"
    by (simp add: update_conv')
  from 1 2 3 show ?thesis unfolding r_def by blast
qed

theorem role_round_trip_witness:
  "\<exists>token sess'. jwt token_A (buildClaims store_A row_A) = Inr token
     \<and> session session_A token = Inr sess'
     \<and> opt_prop (opt_prop sess' ''user'') ''role'' = JStr ''ADMIN''"
  using role_round_trip [of session_A "[(''email'', JStr ''a@x.com''), (''name'', JStr ''A'')]"
      "[(''sub'', JStr ''1'')]" store_A row_A]
  by (simp add: session_A_def token_A_def row_A_def)

text \<open>
  C5. Along the whole flow: \<^verbatim>\<open>authorize\<close> succeeds, \<^verbatim>\<open>jwt\<close> is called at login with the
  object \<^verbatim>\<open>authorize\<close> returned, then once per later request with no \<^verbatim>\<open>user\<close>, and
  \<^verbatim>\<open>session\<close> projects the token. Whenever this yields a session with a user, the role in
  the token and the role attached to the session's user are the same string, one of
  ADMIN, USER, MODERATOR; so it is neither \<^verbatim>\<open>undefined\<close> nor the empty string.
\<close>

theorem pipeline_role_closed:
  assumes "snd (authorize env c) = Inr claims"
    and "jwt token0 claims = Inr token1"
    and "\<forall>u \<in> set later. \<not> truthy u"
    and "jwt_requests token1 later = Inr token"
    and "session sess token = Inr sess'"
    and "truthy (opt_prop sess' ''user'')"
  shows "opt_prop token ''role'' \<in> {JStr ''ADMIN'', JStr ''USER'', JStr ''MODERATOR''}
       \<and> opt_prop (opt_prop sess' ''user'') ''role'' = opt_prop token ''role''
       \<and> opt_prop (opt_prop sess' ''user'') ''role'' \<noteq> JUndefined
       \<and> opt_prop (opt_prop sess' ''user'') ''role'' \<noteq> JStr []"
proof -
  from assms(1) obtain user where "claims = buildClaims env user"
    using authorize_returns by blast
  with assms(2) have "set_prop token0 ''role'' (JStr (role_str (user_role user))) = Inr token1"
    by (simp add: jwt_buildClaims)
  then have "opt_prop token1 ''role'' = JStr (role_str (user_role user))"
    by (rule set_prop_result)
  moreover have "token = token1"
    using jwt_requests_unchanged [of later token1] assms(3,4) by simp
  ultimately have tok: "opt_prop token ''role'' = JStr (role_str (user_role user))"
    by simp
  then have closed: "opt_prop token ''role'' \<in> {JStr ''ADMIN'', JStr ''USER'', JStr ''MODERATOR''}"
    using role_str_closed [of "user_role user"] by auto
  from tok have tok_get: "get_prop token ''role'' = Inr (opt_prop token ''role'')"
    by (cases token) simp_all
  from session_cases [OF assms(5)] assms(6)
  obtain uf r where uf: "opt_prop sess ''user'' = JObj uf"
    and r: "get_prop token ''role'' = Inr r"
    and s': "sess' = write_back sess ''user'' (JObj (AList.update ''role'' r uf))"
    by auto
  have "opt_prop sess' ''user'' = JObj (AList.update ''role'' r uf)"
    unfolding s' using uf by (rule opt_prop_write_back)
  then have "opt_prop (opt_prop sess' ''user'') ''role'' = r"
    by (simp add: update_conv')
  with r tok_get have same: "opt_prop (opt_prop sess' ''user'') ''role'' = opt_prop token ''role''"
    by simp
  from closed same show ?thesis by auto
qed

theorem pipeline_role_closed_witness:
  "opt_prop (JObj [(''sub'', JStr ''1''), (''role'', JStr ''ADMIN'')]) ''role''
     \<in> {JStr ''ADMIN'', JStr ''USER'', JStr ''MODERATOR''}
   \<and> opt_prop (opt_prop (JObj [(''user'', JObj [(''email'', JStr ''a@x.com''),
         (''name'', JStr ''A''), (''role'', JStr ''ADMIN'')])]) ''user'') ''role''
     = opt_prop (JObj [(''sub'', JStr ''1''), (''role'', JStr ''ADMIN'')]) ''role''"
proof -
  have 1: "snd (authorize store_A (creds ''a@x.com'' ''pw1'')) = Inr (buildClaims store_A row_A)"
    by (simp add: authorize_def store_A_def row_A_def creds_def)
  have 2: "jwt token_A (buildClaims store_A row_A)
             = Inr (JObj [(''sub'', JStr ''1''), (''role'', JStr ''ADMIN'')])"
    by (simp add: jwt_buildClaims token_A_def row_A_def)
  have 3: "\<forall>u \<in> set [JUndefined, JUndefined]. \<not> truthy u"
    by simp
  have 4: "jwt_requests (JObj [(''sub'', JStr ''1''), (''role'', JStr ''ADMIN'')])
             [JUndefined, JUndefined]
           = Inr (JObj [(''sub'', JStr ''1''), (''role'', JStr ''ADMIN'')])"
    by (simp add: jwt_def)
  have 5: "session session_A (JObj [(''sub'', JStr ''1''), (''role'', JStr ''ADMIN'')])
             = Inr (JObj [(''user'', JObj [(''email'', JStr ''a@x.com''),
                     (''name'', JStr ''A''), (''role'', JStr ''ADMIN'')])])"
    by (simp add: session_def session_A_def)
  have 6: "truthy (opt_prop (JObj [(''user'', JObj [(''email'', JStr ''a@x.com''),
                     (''name'', JStr ''A''), (''role'', JStr ''ADMIN'')])]) ''user'')"
    by simp
  from pipeline_role_closed [OF 1 2 3 4 5 6] show ?thesis by blast
qed

section \<open>What a failed login shows\<close>

text \<open>
  C6, as stated, fails: a login with an unknown email and a login with a known email and a
  wrong password are rejected with different errors, and nothing in the source replaces
  either message before the error leaves \<^verbatim>\<open>authorize\<close>.
\<close>

theorem authorize_failures_differ_example:
  "snd (authorize store_A (creds ''b@x.com'' ''pw1''))
     = Inl (Error ''No user found with this email'')
   \<and> snd (authorize store_A (creds ''a@x.com'' ''wrong''))
     = Inl (Error ''Incorrect password'')
   \<and> snd (authorize store_A (creds ''b@x.com'' ''pw1''))
     \<noteq> snd (authorize store_A (creds ''a@x.com'' ''wrong''))"
  by (simp add: authorize_def store_A_def row_A_def creds_def)

text \<open>
  C6, amended. Of two runs of \<^verbatim>\<open>authorize\<close> on non-empty credentials, one where no row
  matches the email and one where a row matches and the digest comparison fails, the
  first is rejected with the message \<^verbatim>\<open>No user found with this email\<close> and the second with
  \<^verbatim>\<open>Incorrect password\<close>: the caller can tell the two failures apart.
\<close>

theorem authorize_failures_distinguishable:
  assumes "cred_email c1 = Some email1" and "cred_password c1 = Some password1"
    and "email1 \<noteq> []" and "password1 \<noteq> []"
    and "findUnique env1 email1 = Inr None"
    and "cred_email c2 = Some email2" and "cred_password c2 = Some password2"
    and "email2 \<noteq> []" and "password2 \<noteq> []"
    and "findUnique env2 email2 = Inr (Some user)"
    and "\<not> bcrypt_compare env2 password2 (user_password user)"
  shows "snd (authorize env1 (Some c1)) = Inl (Error ''No user found with this email'')
       \<and> snd (authorize env2 (Some c2)) = Inl (Error ''Incorrect password'')
       \<and> snd (authorize env1 (Some c1)) \<noteq> snd (authorize env2 (Some c2))"
  using assms by (simp add: authorize_def)

theorem authorize_failures_distinguishable_witness:
  "snd (authorize store_A (Some \<lparr>cred_email = Some ''nobody@x.com'', cred_password = Some ''pw1''\<rparr>))
     \<noteq> snd (authorize store_A (Some \<lparr>cred_email = Some ''a@x.com'', cred_password = Some ''pw2''\<rparr>))"
  using authorize_failures_distinguishable
    [of "\<lparr>cred_email = Some ''nobody@x.com'', cred_password = Some ''pw1''\<rparr>" "''nobody@x.com''" "''pw1''"
        store_A
        "\<lparr>cred_email = Some ''a@x.com'', cred_password = Some ''pw2''\<rparr>" "''a@x.com''" "''pw2''"
        store_A row_A]
  by (simp add: store_A_def row_A_def)

section \<open>Loading the store client module\<close>

text \<open>
  C10. Outside production (\<^verbatim>\<open>NODE_ENV\<close> is not \<^verbatim>\<open>"production"\<close>): a client already on the
  global is the one exported, and nothing is constructed or written; with none on the
  global, one client is constructed, stored on the global and exported; so a second load
  exports the client of the first and constructs nothing. In production a new client is
  constructed and exported, the global is left as it was, and what is exported does not
  depend on what the global holds.
\<close>

theorem prisma_module_caching:
  "(NODE_ENV p \<noteq> Some ''production'' \<and> global_prisma p = Some c \<longrightarrow>
      prisma_module p = (Some c, p))
   \<and> (NODE_ENV p \<noteq> Some ''production'' \<and> global_prisma p = None \<longrightarrow>
      prisma_module p = (Some (constructed p),
                         p\<lparr>global_prisma := Some (constructed p),
                           constructed := Suc (constructed p)\<rparr>))
   \<and> (NODE_ENV p \<noteq> Some ''production'' \<longrightarrow>
      prisma_module (snd (prisma_module p)) = (fst (prisma_module p), snd (prisma_module p)))
   \<and> (NODE_ENV p = Some ''production'' \<longrightarrow>
      prisma_module p = (Some (constructed p), p\<lparr>constructed := Suc (constructed p)\<rparr>)
      \<and> global_prisma (snd (prisma_module p)) = global_prisma p
      \<and> (\<forall>g. fst (prisma_module (p\<lparr>global_prisma := g\<rparr>)) = fst (prisma_module p)))"
proof (intro conjI impI)
  assume "NODE_ENV p \<noteq> Some ''production'' \<and> global_prisma p = Some c"
  then show "prisma_module p = (Some c, p)"
    by (simp add: prisma_module_def)
next
  assume "NODE_ENV p \<noteq> Some ''production'' \<and> global_prisma p = None"
  then show "prisma_module p = (Some (constructed p),
               p\<lparr>global_prisma := Some (constructed p), constructed := Suc (constructed p)\<rparr>)"
    by (simp add: prisma_module_def new_PrismaClient_def)
next
  assume dev: "NODE_ENV p \<noteq> Some ''production''"
  show "prisma_module (snd (prisma_module p)) = (fst (prisma_module p), snd (prisma_module p))"
  proof (cases "global_prisma p")
    case None
    with dev show ?thesis by (simp add: prisma_module_def new_PrismaClient_def)
  next
    case (Some c)
    with dev show ?thesis by (simp add: prisma_module_def)
  qed
next
  assume prod: "NODE_ENV p = Some ''production''"
  then show "prisma_module p = (Some (constructed p), p\<lparr>constructed := Suc (constructed p)\<rparr>)"
    by (simp add: prisma_module_def new_PrismaClient_def)
  from prod show "global_prisma (snd (prisma_module p)) = global_prisma p"
    by (simp add: prisma_module_def new_PrismaClient_def)
  from prod show "\<forall>g. fst (prisma_module (p\<lparr>global_prisma := g\<rparr>)) = fst (prisma_module p)"
    by (simp add: prisma_module_def new_PrismaClient_def)
qed

theorem prisma_module_caching_witness:
  "prisma_module \<lparr>NODE_ENV = Some ''development'', global_prisma = Some 0, constructed = 1\<rparr>
     = (Some 0, \<lparr>NODE_ENV = Some ''development'', global_prisma = Some 0, constructed = 1\<rparr>)
   \<and> prisma_module \<lparr>NODE_ENV = None, global_prisma = None, constructed = 0\<rparr>
     = (Some 0, \<lparr>NODE_ENV = None, global_prisma = Some 0, constructed = 1\<rparr>)
   \<and> prisma_module \<lparr>NODE_ENV = Some ''production'', global_prisma = Some 0, constructed = 1\<rparr>
     = (Some 1, \<lparr>NODE_ENV = Some ''production'', global_prisma = Some 0, constructed = 2\<rparr>)"
  using prisma_module_caching
      [of "\<lparr>NODE_ENV = Some ''development'', global_prisma = Some 0, constructed = 1\<rparr>" 0]
    prisma_module_caching [of "\<lparr>NODE_ENV = None, global_prisma = None, constructed = 0\<rparr>" 0]
    prisma_module_caching
      [of "\<lparr>NODE_ENV = Some ''production'', global_prisma = Some 0, constructed = 1\<rparr>" 0]
  by simp

end
